theory Spec2Isabelle
  imports Main "HOL-Library.Product_Lexorder"
begin

section \<open>The time-series query engine of api.py\<close>

text \<open>
  The module reads one CSV table into a pandas DataFrame at import time
  (\<open>DF = load_df()\<close>) and answers every request by filtering, sorting and
  aggregating that frame.  The embedding follows the module function by function.

  Library functions that the module calls but does not define are the fields of the
  record \<open>lib\<close> below, a parameter of the definitions that use them, so every theorem
  holds for each behaviour they may have.
\<close>

subsection \<open>Cells, frames, errors\<close>

text \<open>
  A cell of a DataFrame: a missing value (\<open>NaN\<close>, \<open>NaT\<close> and \<open>None\<close> are the same to
  \<open>isna\<close>, \<open>dropna\<close> and \<open>fillna\<close>), a number, a string, or a timestamp.  The count
  columns of the data set hold whole numbers, so numbers are integers and the
  conversion \<open>int(x)\<close> of a number is the identity.
\<close>

datatype cell = NA | Num int | Str string | Timestamp int

text \<open>
  A frame is its list of column labels and its rows, each row a list of cells in
  column order.  Labels may repeat: normalising can map two raw labels to one.  A
  label that occurs once selects its column, a single Series.  A repeated label selects
  a frame of several columns; \<open>load_df\<close> meets this case for \<open>date\<close> and raises there
  (see \<open>to_datetime_series\<close>).  The request handlers select at the first position
  of a label.
\<close>

type_synonym row = "cell list"

record frame =
  columns :: "string list"
  rows :: "row list"

datatype error =
    ValueError string "string list"
  | KeyError string
  | TypeError

text \<open>
  The library: \<open>to_datetime\<close> is \<open>pd.to_datetime(s, errors="coerce")\<close> on one string
  (\<open>None\<close> is \<open>NaT\<close>, \<open>Some t\<close> the timestamp \<open>t\<close>, in nanoseconds and without time
  zone); \<open>py_int\<close> is Python's \<open>int(s)\<close> on a string (\<open>None\<close> is the \<open>ValueError\<close>
  it raises); \<open>isoformat\<close> is \<open>t.date().isoformat()\<close> and \<open>strftime\<close> is
  \<open>t.strftime("%Y-%m-%d")\<close> of a timestamp.
\<close>

record lib =
  to_datetime :: "string \<Rightarrow> int option"
  py_int :: "string \<Rightarrow> int option"
  isoformat :: "int \<Rightarrow> string"
  strftime :: "int \<Rightarrow> string"

fun find_col :: "string list \<Rightarrow> string \<Rightarrow> nat option" where
  "find_col [] c = None"
| "find_col (x # xs) c = (if x = c then Some 0 else map_option Suc (find_col xs c))"

definition cell_of :: "nat \<Rightarrow> row \<Rightarrow> cell" where
  "cell_of i r = (if i < length r then r ! i else NA)"

text \<open>\<open>r[c]\<close> for a row \<open>r\<close> of the frame \<open>df\<close>, and \<open>r.get(c)\<close>: missing when there
  is no such column.\<close>

definition cell_at :: "frame \<Rightarrow> row \<Rightarrow> string \<Rightarrow> cell" where
  "cell_at df r c = (case find_col (columns df) c of None \<Rightarrow> NA | Some i \<Rightarrow> cell_of i r)"

definition notna :: "cell \<Rightarrow> bool" where
  "notna c = (c \<noteq> NA)"

subsection \<open>normalize_columns\<close>

text \<open>
  Python's \<open>str.strip()\<close> removes leading and trailing white space; among the ASCII
  characters these are the codes 9 to 13, 28 to 31 and 32.  \<open>str.lower()\<close> maps
  \<open>A\<close> to \<open>Z\<close> to \<open>a\<close> to \<open>z\<close>.  Labels are byte strings here; the two functions
  leave every byte above 127 as it is.
\<close>

definition is_space :: "char \<Rightarrow> bool" where
  "is_space c = (let n = (of_char c :: nat) in (9 \<le> n \<and> n \<le> 13) \<or> (28 \<le> n \<and> n \<le> 32))"

definition strip :: "string \<Rightarrow> string" where
  "strip s = rev (dropWhile is_space (rev (dropWhile is_space s)))"

definition lower_char :: "char \<Rightarrow> char" where
  "lower_char c = (let n = (of_char c :: nat) in if 65 \<le> n \<and> n \<le> 90 then char_of (n + 32) else c)"

definition lower :: "string \<Rightarrow> string" where
  "lower s = map lower_char s"

text \<open>\<open>s.replace(a, b)\<close> for one-character strings \<open>a\<close> and \<open>b\<close>.\<close>

definition replace :: "char \<Rightarrow> char \<Rightarrow> string \<Rightarrow> string" where
  "replace a b s = map (\<lambda>c. if c = a then b else c) s"

definition normalize_label :: "string \<Rightarrow> string" where
  "normalize_label s = replace (CHR ''/'') (CHR ''_'') (replace (CHR '' '') (CHR ''_'') (lower (strip s)))"

definition normalize_columns :: "frame \<Rightarrow> frame" where
  "normalize_columns df = df\<lparr>columns := map normalize_label (columns df)\<rparr>"

subsection \<open>load_df\<close>

text \<open>
  \<open>pd.to_datetime(column, errors="coerce")\<close>, cell by cell: a string is parsed, a number
  is a count of nanoseconds, a missing value stays missing.  Nothing raises.
\<close>

fun to_datetime_cell :: "lib \<Rightarrow> cell \<Rightarrow> cell" where
  "to_datetime_cell L NA = NA"
| "to_datetime_cell L (Num n) = Timestamp n"
| "to_datetime_cell L (Str s) = (case to_datetime L s of None \<Rightarrow> NA | Some t \<Rightarrow> Timestamp t)"
| "to_datetime_cell L (Timestamp t) = Timestamp t"

text \<open>
  \<open>df[c] = values\<close>, the new cell of each row computed from the row: an existing
  column is overwritten in place, a new label becomes the last column.
\<close>

definition setitem :: "string \<Rightarrow> (row \<Rightarrow> cell) \<Rightarrow> frame \<Rightarrow> frame" where
  "setitem c f df =
    (case find_col (columns df) c of
       Some i \<Rightarrow> df\<lparr>rows := map (\<lambda>r. r[i := f r]) (rows df)\<rparr>
     | None \<Rightarrow> df\<lparr>columns := columns df @ [c], rows := map (\<lambda>r. r @ [f r]) (rows df)\<rparr>)"

text \<open>\<open>df.dropna(subset=[c])\<close> for a label \<open>c\<close> of the frame.\<close>

definition dropna :: "string \<Rightarrow> frame \<Rightarrow> frame" where
  "dropna c df = df\<lparr>rows := filter (\<lambda>r. notna (cell_at df r c)) (rows df)\<rparr>"

text \<open>
  \<open>pd.to_datetime(df[c], errors="coerce")\<close> for a label \<open>c\<close> of the frame.  When the
  label occurs once, \<open>df[c]\<close> is a Series and the result is its cells converted one by
  one.  When it occurs several times, \<open>df[c]\<close> is a frame of several columns with the
  same key, and \<open>pd.to_datetime\<close> raises \<open>ValueError\<close> (it cannot assemble a date
  from duplicate keys), whatever \<open>errors\<close> is.
\<close>

definition to_datetime_series :: "lib \<Rightarrow> frame \<Rightarrow> string \<Rightarrow> error + (row \<Rightarrow> cell)" where
  "to_datetime_series L df c =
    (if 1 < count_list (columns df) c
     then Inl (ValueError ''cannot assemble with duplicate keys'' [])
     else Inr (\<lambda>r. to_datetime_cell L (cell_at df r c)))"

definition load_df :: "lib \<Rightarrow> frame \<Rightarrow> error + frame" where
  "load_df L raw =
    (let df = normalize_columns raw in
     if ''date'' \<notin> set (columns df)
     then Inl (ValueError ''No date column found. Columns: '' (columns df))
     else if ''location'' \<notin> set (columns df)
     then Inl (ValueError ''No location column found. Columns: '' (columns df))
     else
       case to_datetime_series L df ''date'' of
         Inl e \<Rightarrow> Inl e
       | Inr dates \<Rightarrow>
           let df = setitem ''date'' dates df;
               df = dropna ''date'' df;
               df = (if ''location_level'' \<notin> set (columns df)
                     then setitem ''location_level'' (\<lambda>r. Str ''Unknown'') df else df)
           in Inr df)"

subsection \<open>apply_filters\<close>

text \<open>The query string: \<open>request.args.get(k)\<close> is \<open>args k\<close>.\<close>

type_synonym args = "string \<Rightarrow> string option"

text \<open>\<open>if v:\<close> for an optional string \<open>v\<close>: taken when \<open>v\<close> is neither \<open>None\<close> nor the
  empty string; \<open>given v\<close> is then the string.\<close>

fun given :: "string option \<Rightarrow> string option" where
  "given None = None"
| "given (Some s) = (if s = [] then None else Some s)"

definition bind_err :: "error + 'a \<Rightarrow> ('a \<Rightarrow> error + 'b) \<Rightarrow> error + 'b" where
  "bind_err m f = (case m of Inl e \<Rightarrow> Inl e | Inr x \<Rightarrow> f x)"

text \<open>\<open>out[p(out[c])]\<close>: the label must exist, the rows whose cell satisfies \<open>p\<close> stay,
  in their order.\<close>

definition select_rows :: "string \<Rightarrow> (cell \<Rightarrow> bool) \<Rightarrow> frame \<Rightarrow> error + frame" where
  "select_rows c p df =
    (case find_col (columns df) c of
       None \<Rightarrow> Inl (KeyError c)
     | Some i \<Rightarrow> Inr (df\<lparr>rows := filter (\<lambda>r. p (cell_of i r)) (rows df)\<rparr>))"

text \<open>Comparing a cell of a datetime column with a timestamp; \<open>NaT\<close> compares false.\<close>

fun ge_ts :: "int \<Rightarrow> cell \<Rightarrow> bool" where
  "ge_ts s (Timestamp t) = (s \<le> t)"
| "ge_ts s _ = False"

fun le_ts :: "int \<Rightarrow> cell \<Rightarrow> bool" where
  "le_ts e (Timestamp t) = (t \<le> e)"
| "le_ts e _ = False"

definition apply_filters :: "lib \<Rightarrow> frame \<Rightarrow> args \<Rightarrow> error + frame" where
  "apply_filters L df args =
    (let location = args ''location'';
         level = args ''level'';
         start = args ''start'';
         end' = args ''end''
     in
     bind_err (case given level of None \<Rightarrow> Inr df
               | Some v \<Rightarrow> select_rows ''location_level'' (\<lambda>c. c = Str v) df) (\<lambda>out.
     bind_err (case given location of None \<Rightarrow> Inr out
               | Some v \<Rightarrow> select_rows ''location'' (\<lambda>c. c = Str v) out) (\<lambda>out.
     bind_err (case given start of None \<Rightarrow> Inr out
               | Some v \<Rightarrow> (case to_datetime L v of None \<Rightarrow> Inr out
                            | Some s \<Rightarrow> select_rows ''date'' (ge_ts s) out)) (\<lambda>out.
     bind_err (case given end' of None \<Rightarrow> Inr out
               | Some v \<Rightarrow> (case to_datetime L v of None \<Rightarrow> Inr out
                            | Some e \<Rightarrow> select_rows ''date'' (le_ts e) out)) (\<lambda>out.
     Inr out)))))"

subsection \<open>Sorting, tails and reductions\<close>

text \<open>
  \<open>df.sort_values(c)\<close> on a datetime column: ascending, \<open>NaT\<close> last.  The sort is
  the stable insertion sort of the list library; pandas promises no particular order
  among rows of equal date.
\<close>

fun na_last :: "cell \<Rightarrow> nat \<times> int" where
  "na_last (Timestamp t) = (0, t)"
| "na_last _ = (1, 0)"

definition sort_values :: "string \<Rightarrow> frame \<Rightarrow> error + frame" where
  "sort_values c df =
    (case find_col (columns df) c of
       None \<Rightarrow> Inl (KeyError c)
     | Some i \<Rightarrow> Inr (df\<lparr>rows := sort_key (\<lambda>r. na_last (cell_of i r)) (rows df)\<rparr>))"

text \<open>\<open>df.tail(n)\<close> for \<open>n \<ge> 0\<close>: the last \<open>n\<close> rows, all of them when there are fewer.\<close>

definition tail :: "nat \<Rightarrow> frame \<Rightarrow> frame" where
  "tail n df = df\<lparr>rows := drop (length (rows df) - n) (rows df)\<rparr>"

text \<open>\<open>df[c]\<close> as the list of its cells, for a label \<open>c\<close> of the frame.\<close>

definition column :: "frame \<Rightarrow> string \<Rightarrow> cell list" where
  "column df c = map (\<lambda>r. cell_at df r c) (rows df)"

fun fillna :: "cell \<Rightarrow> cell \<Rightarrow> cell" where
  "fillna v NA = v"
| "fillna v c = c"

text \<open>\<open>series.sum()\<close>: missing cells are skipped, numbers are added, and a column that
  holds a string or a timestamp has no numeric sum.\<close>

fun series_sum :: "cell list \<Rightarrow> error + int" where
  "series_sum [] = Inr 0"
| "series_sum (NA # cs) = series_sum cs"
| "series_sum (Num n # cs) = bind_err (series_sum cs) (\<lambda>m. Inr (n + m))"
| "series_sum (_ # cs) = Inl TypeError"

fun timestamps :: "cell list \<Rightarrow> int list" where
  "timestamps [] = []"
| "timestamps (Timestamp t # cs) = t # timestamps cs"
| "timestamps (_ # cs) = timestamps cs"

text \<open>\<open>series.min()\<close> and \<open>series.max()\<close> of a datetime column: \<open>NaT\<close> is skipped, and is
  the result when nothing else is there.\<close>

definition series_min :: "cell list \<Rightarrow> cell" where
  "series_min cs = (case timestamps cs of [] \<Rightarrow> NA | t # ts \<Rightarrow> Timestamp (fold min ts t))"

definition series_max :: "cell list \<Rightarrow> cell" where
  "series_max cs = (case timestamps cs of [] \<Rightarrow> NA | t # ts \<Rightarrow> Timestamp (fold max ts t))"

text \<open>\<open>x.date().isoformat()\<close>; of \<open>NaT\<close> it is the string \<open>NaT\<close>.\<close>

fun date_isoformat :: "lib \<Rightarrow> cell \<Rightarrow> string" where
  "date_isoformat L (Timestamp t) = isoformat L t"
| "date_isoformat L _ = ''NaT''"

text \<open>\<open>int(x)\<close> of a cell: a number is itself, a string is parsed, a missing value is a
  \<open>ValueError\<close> and a timestamp a \<open>TypeError\<close>.\<close>

fun int_of_cell :: "lib \<Rightarrow> cell \<Rightarrow> error + int" where
  "int_of_cell L (Num n) = Inr n"
| "int_of_cell L (Str s) =
     (case py_int L s of None \<Rightarrow> Inl (ValueError ''invalid literal for int()'' []) | Some n \<Rightarrow> Inr n)"
| "int_of_cell L NA = Inl (ValueError ''cannot convert float NaN to integer'' [])"
| "int_of_cell L (Timestamp t) = Inl TypeError"

subsection \<open>The handlers\<close>

text \<open>A JSON response: of \<open>/api/summary\<close> (the \<open>message\<close> key is there only for an empty
  result) and of \<open>/api/cases\<close>.  A dictionary is the list of its items.\<close>

datatype response =
    SummaryResponse (count: nat) (kpi: "(string \<times> cell) list") (message: "string option")
  | CasesResponse (count: nat) (data: "(string \<times> cell) list list")

text \<open>
  \<open>if c in df.columns and pd.notna(last.get(c)): kpi[c] = int(last[c])\<close>, on the
  dictionary \<open>d\<close>.
\<close>

definition put_total :: "lib \<Rightarrow> frame \<Rightarrow> row \<Rightarrow> string \<Rightarrow> (string \<times> cell) list \<Rightarrow> error + (string \<times> cell) list" where
  "put_total L df last_row c d =
    (if c \<in> set (columns df) \<and> notna (cell_at df last_row c)
     then bind_err (int_of_cell L (cell_at df last_row c)) (\<lambda>n. Inr (d @ [(c, Num n)]))
     else Inr d)"

text \<open>
  \<open>if c in df.columns: kpi[k] = int(df.tail(7)[c].fillna(0).sum())\<close>, on the
  dictionary \<open>d\<close>.
\<close>

definition put_sum_7d :: "frame \<Rightarrow> string \<Rightarrow> string \<Rightarrow> (string \<times> cell) list \<Rightarrow> error + (string \<times> cell) list" where
  "put_sum_7d df c k d =
    (if c \<in> set (columns df)
     then bind_err (series_sum (map (fillna (Num 0)) (column (tail 7 df) c))) (\<lambda>n. Inr (d @ [(k, Num n)]))
     else Inr d)"

definition summary :: "lib \<Rightarrow> frame \<Rightarrow> args \<Rightarrow> error + response" where
  "summary L DF args =
    bind_err (apply_filters L DF args) (\<lambda>view.
    bind_err (sort_values ''date'' view) (\<lambda>df.
      if rows df = [] then Inr (SummaryResponse 0 [] (Some ''No data for filters''))
      else
        let last_row = last (rows df);
            kpi = [(''min_date'', Str (date_isoformat L (series_min (column df ''date'')))),
                   (''max_date'', Str (date_isoformat L (series_max (column df ''date''))))]
        in
        bind_err (put_total L df last_row ''total_cases'' kpi) (\<lambda>kpi.
        bind_err (put_total L df last_row ''total_deaths'' kpi) (\<lambda>kpi.
        bind_err (put_sum_7d df ''new_cases'' ''new_cases_7d'' kpi) (\<lambda>kpi.
        bind_err (put_sum_7d df ''new_deaths'' ''new_deaths_7d'' kpi) (\<lambda>kpi.
        Inr (SummaryResponse (length (rows df)) kpi None)))))))"

text \<open>
  The \<open>limit\<close> of \<open>/api/cases\<close>:
  \<^verbatim>\<open>
  limit = request.args.get("limit", default="3000")
  try: limit_n = max(1, min(int(limit), 20000))
  except ValueError: limit_n = 3000
  \<close>
\<close>

definition limit_n :: "lib \<Rightarrow> args \<Rightarrow> int" where
  "limit_n L args =
    (let limit = (case args ''limit'' of None \<Rightarrow> ''3000'' | Some s \<Rightarrow> s)
     in case py_int L limit of Some n \<Rightarrow> max 1 (min n 20000) | None \<Rightarrow> 3000)"

definition allowed_columns :: "string list" where
  "allowed_columns =
    [''date'', ''location'', ''location_level'', ''new_cases'', ''new_deaths'',
     ''total_cases'', ''total_deaths'', ''latitude'', ''longitude'']"

text \<open>\<open>df[cols]\<close> for labels of the frame.\<close>

definition project :: "string list \<Rightarrow> frame \<Rightarrow> frame" where
  "project cols df = \<lparr>columns = cols, rows = map (\<lambda>r. map (cell_at df r) cols) (rows df)\<rparr>"

text \<open>\<open>series.dt.strftime(fmt)\<close>, cell by cell; \<open>NaT\<close> gives a missing value.\<close>

fun strftime_cell :: "lib \<Rightarrow> cell \<Rightarrow> cell" where
  "strftime_cell L (Timestamp t) = Str (strftime L t)"
| "strftime_cell L _ = NA"

text \<open>\<open>out.to_dict(orient="records")\<close>\<close>

definition to_dict_records :: "frame \<Rightarrow> (string \<times> cell) list list" where
  "to_dict_records df = map (\<lambda>r. zip (columns df) r) (rows df)"

definition cases :: "lib \<Rightarrow> frame \<Rightarrow> args \<Rightarrow> error + response" where
  "cases L DF args =
    bind_err (apply_filters L DF args) (\<lambda>view.
    bind_err (sort_values ''date'' view) (\<lambda>df.
      let df = tail (nat (limit_n L args)) df;
          cols = filter (\<lambda>c. c \<in> set (columns df)) allowed_columns;
          out = project cols df;
          out = setitem ''date'' (\<lambda>r. strftime_cell L (cell_at out r ''date'')) out
      in Inr (CasesResponse (length (rows out)) (to_dict_records out))))"

subsection \<open>The module\<close>

text \<open>
  \<open>DF = load_df()\<close> runs when the module is imported, before any route exists and
  before \<open>app.run\<close>: when it raises there is no service.  Otherwise every request is
  answered from \<open>DF\<close>.
\<close>

datatype request = Summary args | Cases args

definition app :: "lib \<Rightarrow> frame \<Rightarrow> request \<Rightarrow> error + (error + response)" where
  "app L raw req =
    (case load_df L raw of
       Inl e \<Rightarrow> Inl e
     | Inr DF \<Rightarrow> Inr (case req of Summary a \<Rightarrow> summary L DF a | Cases a \<Rightarrow> cases L DF a))"

subsection \<open>What the claims speak of\<close>

text \<open>The error of a missing required column: one of the two that \<open>load_df\<close> raises
  itself.\<close>

fun schema_error :: "error \<Rightarrow> bool" where
  "schema_error (ValueError m cs) =
     (m = ''No date column found. Columns: '' \<or> m = ''No location column found. Columns: '')"
| "schema_error _ = False"

text \<open>A record of the data set has a valid date when its date cell is a timestamp, and
  a location when its location cell is neither missing nor the empty string.\<close>

fun is_timestamp :: "cell \<Rightarrow> bool" where
  "is_timestamp (Timestamp t) = True"
| "is_timestamp _ = False"

definition valid_date :: "frame \<Rightarrow> row \<Rightarrow> bool" where
  "valid_date df r = is_timestamp (cell_at df r ''date'')"

definition has_location :: "frame \<Rightarrow> row \<Rightarrow> bool" where
  "has_location df r = (cell_at df r ''location'' \<noteq> NA \<and> cell_at df r ''location'' \<noteq> Str [])"





subsection \<open>An example library and an example table\<close>

text \<open>
  A small instance of the library, enough to run the module on examples: integers are
  strings of decimal digits with an optional minus sign, dates are the days
  \<open>2021-01-dd\<close>, and the timestamp of a date is its day number.
\<close>

fun digits :: "string \<Rightarrow> nat \<Rightarrow> nat option" where
  "digits [] acc = Some acc"
| "digits (c # cs) acc =
     (let n = (of_char c :: nat) in
      if 48 \<le> n \<and> n \<le> 57 then digits cs (10 * acc + (n - 48)) else None)"

definition example_int :: "string \<Rightarrow> int option" where
  "example_int s =
    (case s of
       [] \<Rightarrow> None
     | c # cs \<Rightarrow>
         if c = CHR ''-'' then (if cs = [] then None else map_option (\<lambda>n. - int n) (digits cs 0))
         else map_option int (digits s 0))"

definition example_to_datetime :: "string \<Rightarrow> int option" where
  "example_to_datetime s =
    (if length s = 10 \<and> take 8 s = ''2021-01-'' then map_option int (digits (drop 8 s) 0) else None)"

definition example_isoformat :: "int \<Rightarrow> string" where
  "example_isoformat t = ''2021-01-'' @ [char_of (48 + nat t div 10), char_of (48 + nat t mod 10)]"

definition example_lib :: lib where
  "example_lib =
    \<lparr>to_datetime = example_to_datetime, py_int = example_int,
     isoformat = example_isoformat, strftime = example_isoformat\<rparr>"

text \<open>A table as \<open>read_csv\<close> gives it: nine days of the location \<open>X\<close>, one day of
  \<open>Y\<close>, a row whose date is no date, and a row without location.\<close>

definition example_raw :: frame where
  "example_raw =
    \<lparr>columns = [''Date'', '' Location '', ''Total Cases'', ''New Cases''],
     rows =
      [[Str ''2021-01-02'', Str ''X'', Num 30, Num 20],
       [Str ''2021-01-01'', Str ''X'', Num 10, Num 10],
       [Str ''2021-01-03'', Str ''X'', Num 60, Num 30],
       [Str ''not-a-date'', Str ''X'', Num 999, Num 999],
       [Str ''2021-01-04'', Str ''X'', Num 100, Num 40],
       [Str ''2021-01-05'', Str ''X'', Num 100, NA],
       [Str ''2021-01-06'', Str ''X'', Num 160, Num 60],
       [Str ''2021-01-07'', Str ''X'', Num 230, Num 70],
       [Str ''2021-01-08'', Str ''X'', Num 310, Num 80],
       [Str ''2021-01-09'', Str ''X'', Num 400, Num 90],
       [Str ''2021-01-05'', Str ''Y'', Num 7, Num 7],
       [Str ''2021-01-06'', NA, Num 1, Num 1]]\<rparr>"

text \<open>The data set that \<open>load_df\<close> builds from it.\<close>

definition example_DF :: frame where
  "example_DF =
    \<lparr>columns = [''date'', ''location'', ''total_cases'', ''new_cases'', ''location_level''],
     rows =
      [[Timestamp 2, Str ''X'', Num 30, Num 20, Str ''Unknown''],
       [Timestamp 1, Str ''X'', Num 10, Num 10, Str ''Unknown''],
       [Timestamp 3, Str ''X'', Num 60, Num 30, Str ''Unknown''],
       [Timestamp 4, Str ''X'', Num 100, Num 40, Str ''Unknown''],
       [Timestamp 5, Str ''X'', Num 100, NA, Str ''Unknown''],
       [Timestamp 6, Str ''X'', Num 160, Num 60, Str ''Unknown''],
       [Timestamp 7, Str ''X'', Num 230, Num 70, Str ''Unknown''],
       [Timestamp 8, Str ''X'', Num 310, Num 80, Str ''Unknown''],
       [Timestamp 9, Str ''X'', Num 400, Num 90, Str ''Unknown''],
       [Timestamp 5, Str ''Y'', Num 7, Num 7, Str ''Unknown''],
       [Timestamp 6, NA, Num 1, Num 1, Str ''Unknown'']]\<rparr>"

text \<open>The view of the query \<open>location=X\<close>, and that view sorted by date.\<close>

definition example_view :: frame where
  "example_view =
    \<lparr>columns = [''date'', ''location'', ''total_cases'', ''new_cases'', ''location_level''],
     rows =
      [[Timestamp 2, Str ''X'', Num 30, Num 20, Str ''Unknown''],
       [Timestamp 1, Str ''X'', Num 10, Num 10, Str ''Unknown''],
       [Timestamp 3, Str ''X'', Num 60, Num 30, Str ''Unknown''],
       [Timestamp 4, Str ''X'', Num 100, Num 40, Str ''Unknown''],
       [Timestamp 5, Str ''X'', Num 100, NA, Str ''Unknown''],
       [Timestamp 6, Str ''X'', Num 160, Num 60, Str ''Unknown''],
       [Timestamp 7, Str ''X'', Num 230, Num 70, Str ''Unknown''],
       [Timestamp 8, Str ''X'', Num 310, Num 80, Str ''Unknown''],
       [Timestamp 9, Str ''X'', Num 400, Num 90, Str ''Unknown'']]\<rparr>"


text \<open>Query strings.\<close>

definition query :: "(string \<times> string) list \<Rightarrow> args" where
  "query kvs = map_of kvs"

section \<open>Properties\<close>

lemma find_col_None_iff: "find_col xs c = None \<longleftrightarrow> c \<notin> set xs"
  by (induction xs) auto

lemma find_col_Some_less: "find_col xs c = Some i \<Longrightarrow> i < length xs \<and> xs ! i = c"
  by (induction xs arbitrary: i) (auto split: if_splits)

lemma find_col_append: "find_col xs c = Some i \<Longrightarrow> find_col (xs @ ys) c = Some i"
  by (induction xs arbitrary: i) (auto split: if_splits)

subsection \<open>Column labels\<close>

lemma of_char_lower_char:
  "(of_char (lower_char c) :: nat) = (if 65 \<le> (of_char c :: nat) \<and> (of_char c :: nat) \<le> 90 then of_char c + 32 else of_char c)"
  by (simp add: lower_char_def Let_def)

lemma char_eq_code: "(c = d) = ((of_char c :: nat) = of_char d)"
  by (simp add: of_char_eq_iff)

lemma is_space_lower_char: "is_space (lower_char c) = is_space c"
  by (simp add: is_space_def Let_def of_char_lower_char)

lemma lower_char_idem: "lower_char (lower_char c) = lower_char c"
  by (simp add: char_eq_code of_char_lower_char)

lemma lower_char_eq_space: "lower_char c = CHR '' '' \<longleftrightarrow> c = CHR '' ''"
  by (simp add: char_eq_code of_char_lower_char)

lemma lower_char_eq_slash: "lower_char c = CHR ''/'' \<longleftrightarrow> c = CHR ''/''"
  by (simp add: char_eq_code of_char_lower_char)

lemma lower_char_underscore: "lower_char (CHR ''_'') = CHR ''_''"
  by (simp add: char_eq_code of_char_lower_char)

lemma strip_fixed:
  assumes "xs = [] \<or> (\<not> is_space (hd xs) \<and> \<not> is_space (last xs))"
  shows "strip xs = xs"
proof (cases "xs = []")
  case True then show ?thesis by (simp add: strip_def)
next
  case False
  with assms have h: "\<not> is_space (hd xs)" and l: "\<not> is_space (last xs)" by auto
  have a: "dropWhile is_space xs = xs" using h by (simp add: dropWhile_eq_self_iff)
  have "\<not> is_space (hd (rev xs))" using l False by (simp add: hd_rev)
  then have "dropWhile is_space (rev xs) = rev xs" by (simp add: dropWhile_eq_self_iff)
  with a show ?thesis by (simp add: strip_def)
qed

lemma strip_ends: "strip s = [] \<or> (\<not> is_space (hd (strip s)) \<and> \<not> is_space (last (strip s)))"
proof (cases "strip s = []")
  case True then show ?thesis by simp
next
  case False
  let ?ys = "dropWhile is_space s"
  let ?zs = "dropWhile is_space (rev ?ys)"
  have z: "?zs \<noteq> []" using False by (simp add: strip_def)
  then have l: "\<not> is_space (hd ?zs)" by (rule hd_dropWhile)
  have "rev ?ys = takeWhile is_space (rev ?ys) @ ?zs" by simp
  then have "?ys = rev ?zs @ rev (takeWhile is_space (rev ?ys))"
    by (metis rev_append rev_rev_ident)
  moreover have "rev ?zs \<noteq> []" using z by simp
  ultimately have "hd ?ys = hd (rev ?zs)" by (metis hd_append2)
  moreover have "?ys \<noteq> []"
  proof
    assume "?ys = []"
    with z show False by simp
  qed
  then have "\<not> is_space (hd ?ys)" by (rule hd_dropWhile)
  ultimately show ?thesis using l z by (simp add: strip_def last_rev)
qed

lemma not_space_underscore: "\<not> is_space (CHR ''_'')"
  by (simp add: is_space_def)

lemma normalize_label_fixed:
  assumes "t = [] \<or> (\<not> is_space (hd t) \<and> \<not> is_space (last t))"
    and "\<And>c. c \<in> set t \<Longrightarrow> lower_char c = c \<and> c \<noteq> CHR '' '' \<and> c \<noteq> CHR ''/''"
  shows "normalize_label t = t"
  using assms by (simp add: normalize_label_def strip_fixed lower_def replace_def map_idI)

lemma normalize_label_chars:
  "c \<in> set (normalize_label s) \<Longrightarrow> lower_char c = c \<and> c \<noteq> CHR '' '' \<and> c \<noteq> CHR ''/''"
  by (auto simp: normalize_label_def replace_def lower_def lower_char_idem lower_char_underscore
      lower_char_eq_space lower_char_eq_slash split: if_splits)

lemma ends_map:
  assumes "t = [] \<or> (\<not> is_space (hd t) \<and> \<not> is_space (last t))"
    and "\<And>c. \<not> is_space c \<Longrightarrow> \<not> is_space (f c)"
  shows "map f t = [] \<or> (\<not> is_space (hd (map f t)) \<and> \<not> is_space (last (map f t)))"
  using assms by (cases "t = []") (simp_all add: hd_map last_map)

lemma normalize_label_ends:
  "normalize_label s = [] \<or> (\<not> is_space (hd (normalize_label s)) \<and> \<not> is_space (last (normalize_label s)))"
  unfolding normalize_label_def replace_def lower_def
  by (intro ends_map strip_ends) (simp_all add: is_space_lower_char not_space_underscore)

text \<open>
  Claim C9.  Normalising a column label is idempotent: for every label, whatever its
  case, surrounding white space, inner spaces and slashes, normalising the normalised
  label gives it back; so normalising the columns of a frame twice is the same as
  normalising them once.
\<close>

theorem normalize_label_idempotent:
  "normalize_label (normalize_label s) = normalize_label s \<and>
   normalize_columns (normalize_columns df) = normalize_columns df"
proof -
  have "normalize_label (normalize_label t) = normalize_label t" for t
    by (rule normalize_label_fixed) (use normalize_label_chars normalize_label_ends in auto)
  then show ?thesis by (simp add: normalize_columns_def)
qed

subsection \<open>Loading\<close>

lemma find_col_Some_iff: "(\<exists>i. find_col xs c = Some i) \<longleftrightarrow> c \<in> set xs"
  using find_col_None_iff[of xs c] by auto

lemma cell_of_update: "cell_of i (r[i := v]) = (if i < length r then v else NA)"
  by (simp add: cell_of_def)

lemma cell_of_append: "i < length r \<Longrightarrow> cell_of i (r @ [v]) = cell_of i r"
  by (simp add: cell_of_def nth_append)

lemma cell_of_notna_less: "cell_of i r \<noteq> NA \<Longrightarrow> i < length r"
  by (simp add: cell_of_def split: if_splits)

lemma to_datetime_cell_cases: "to_datetime_cell L c = NA \<or> (\<exists>t. to_datetime_cell L c = Timestamp t)"
  by (cases c) (auto split: option.splits)

lemma load_df_eq:
  assumes d: "find_col (map normalize_label (columns raw)) ''date'' = Some i"
    and l: "''location'' \<in> set (map normalize_label (columns raw))"
    and u: "count_list (map normalize_label (columns raw)) ''date'' \<le> 1"
  shows "load_df L raw =
    Inr (let cs = map normalize_label (columns raw);
             rs = filter (\<lambda>r. notna (cell_of i r))
                    (map (\<lambda>r. r[i := to_datetime_cell L (cell_of i r)]) (rows raw))
         in if ''location_level'' \<in> set cs then \<lparr>columns = cs, rows = rs\<rparr>
            else \<lparr>columns = cs @ [''location_level''], rows = map (\<lambda>r. r @ [Str ''Unknown'']) rs\<rparr>)"
proof -
  have "''date'' \<in> set (map normalize_label (columns raw))"
    using d find_col_Some_iff by blast
  moreover have "find_col (map normalize_label (columns raw)) ''location_level'' = None"
    if "''location_level'' \<notin> set (map normalize_label (columns raw))"
    using that by (simp add: find_col_None_iff)
  moreover have "\<not> 1 < count_list (map normalize_label (columns raw)) ''date''"
    using u by simp
  ultimately show ?thesis
    using d l
    by (auto simp: load_df_def to_datetime_series_def normalize_columns_def setitem_def dropna_def
        cell_at_def Let_def find_col_Some_iff)
qed

lemma load_df_Inl:
  assumes "''date'' \<notin> set (columns (normalize_columns raw)) \<or> ''location'' \<notin> set (columns (normalize_columns raw))"
  shows "\<exists>e. load_df L raw = Inl e \<and> schema_error e"
  using assms by (auto simp: load_df_def Let_def)

lemma load_df_Inl_schema:
  assumes "load_df L raw = Inl e" and "schema_error e"
  shows "''date'' \<notin> set (columns (normalize_columns raw)) \<or> ''location'' \<notin> set (columns (normalize_columns raw))"
  using assms
  by (auto simp: load_df_def to_datetime_series_def Let_def split: if_splits)

lemma load_df_Inr:
  assumes "''date'' \<in> set (columns (normalize_columns raw))" "''location'' \<in> set (columns (normalize_columns raw))"
    and "count_list (columns (normalize_columns raw)) ''date'' = 1"
  shows "\<exists>DF. load_df L raw = Inr DF"
  using assms by (auto simp: load_df_def to_datetime_series_def Let_def)

lemma app_Inl: "load_df L raw = Inl e \<Longrightarrow> app L raw req = Inl e"
  by (simp add: app_def)

lemma app_Inr:
  "load_df L raw = Inr DF \<Longrightarrow>
   app L raw req = Inr (case req of Summary a \<Rightarrow> summary L DF a | Cases a \<Rightarrow> cases L DF a)"
  by (simp add: app_def)

text \<open>
  Claim C1, amended.  Loading fails with the error of a missing required column
  exactly when, after the labels are normalised, the table has no \<open>date\<close> column or no
  \<open>location\<close> column.  Every failure of the load happens while the module is loaded:
  no request is answered.  When both columns are there and one label only normalises
  to \<open>date\<close>, the load returns a data set and requests are answered.
\<close>

theorem load_df_schema_error:
  "((\<exists>e. load_df L raw = Inl e \<and> schema_error e) \<longleftrightarrow>
      ''date'' \<notin> set (columns (normalize_columns raw)) \<or>
      ''location'' \<notin> set (columns (normalize_columns raw))) \<and>
   (\<forall>e. load_df L raw = Inl e \<longrightarrow> (\<forall>req. app L raw req = Inl e)) \<and>
   (''date'' \<in> set (columns (normalize_columns raw)) \<and>
    ''location'' \<in> set (columns (normalize_columns raw)) \<and>
    count_list (columns (normalize_columns raw)) ''date'' = 1 \<longrightarrow>
      (\<exists>DF. load_df L raw = Inr DF \<and> (\<forall>req. \<not> isl (app L raw req))))"
proof (intro conjI allI impI)
  show "(\<exists>e. load_df L raw = Inl e \<and> schema_error e) \<longleftrightarrow>
      ''date'' \<notin> set (columns (normalize_columns raw)) \<or>
      ''location'' \<notin> set (columns (normalize_columns raw))"
    using load_df_Inl[of raw L] load_df_Inl_schema[of L raw] by blast
next
  fix e req assume "load_df L raw = Inl e"
  then show "app L raw req = Inl e" by (rule app_Inl)
next
  assume "''date'' \<in> set (columns (normalize_columns raw)) \<and>
    ''location'' \<in> set (columns (normalize_columns raw)) \<and>
    count_list (columns (normalize_columns raw)) ''date'' = 1"
  then obtain DF where "load_df L raw = Inr DF"
    using load_df_Inr[of raw L] by blast
  then show "\<exists>DF. load_df L raw = Inr DF \<and> (\<forall>req. \<not> isl (app L raw req))"
    by (auto simp: app_Inr)
qed

lemma example_bad_columns:
  "columns (normalize_columns \<lparr>columns = [''Date'', ''Province''], rows = []\<rparr>) = [''date'', ''province'']"
  by code_simp

lemma example_raw_columns:
  "columns (normalize_columns example_raw) = [''date'', ''location'', ''total_cases'', ''new_cases'']"
  by code_simp

theorem load_df_schema_error_witness:
  "isl (load_df example_lib \<lparr>columns = [''Date'', ''Province''], rows = []\<rparr>) \<and>
   isl (app example_lib \<lparr>columns = [''Date'', ''Province''], rows = []\<rparr> (Summary (query []))) \<and>
   \<not> isl (load_df example_lib example_raw) \<and>
   \<not> isl (app example_lib example_raw (Summary (query [])))"
proof -
  note bad = load_df_schema_error [of example_lib "\<lparr>columns = [''Date'', ''Province''], rows = []\<rparr>"]
  note good = load_df_schema_error [of example_lib example_raw]
  from bad obtain e where
    e: "load_df example_lib \<lparr>columns = [''Date'', ''Province''], rows = []\<rparr> = Inl e"
    by (auto simp: example_bad_columns)
  with bad have "app example_lib \<lparr>columns = [''Date'', ''Province''], rows = []\<rparr> (Summary (query [])) = Inl e"
    by blast
  moreover from good obtain DF where "load_df example_lib example_raw = Inr DF"
    and "\<not> isl (app example_lib example_raw (Summary (query [])))"
    by (auto simp: example_raw_columns)
  ultimately show ?thesis using e by simp
qed

text \<open>
  Claim C1 as stated promises a successful load whenever both columns are there.  In
  the table below two labels normalise to \<open>date\<close>: both required columns exist, and
  the load fails in the date conversion.
\<close>

theorem load_df_duplicate_date_counterexample:
  "''date'' \<in> set (columns (normalize_columns
       \<lparr>columns = [''Date'', ''date'', ''location''],
        rows = [[Str ''2021-01-01'', Str ''2021-01-01'', Str ''X'']]\<rparr>)) \<and>
   ''location'' \<in> set (columns (normalize_columns
       \<lparr>columns = [''Date'', ''date'', ''location''],
        rows = [[Str ''2021-01-01'', Str ''2021-01-01'', Str ''X'']]\<rparr>)) \<and>
   load_df example_lib
       \<lparr>columns = [''Date'', ''date'', ''location''],
        rows = [[Str ''2021-01-01'', Str ''2021-01-01'', Str ''X'']]\<rparr> =
     Inl (ValueError ''cannot assemble with duplicate keys'' [])"
  by code_simp

lemma load_df_find_date:
  assumes "load_df L raw = Inr DF"
  obtains i where "find_col (columns (normalize_columns raw)) ''date'' = Some i"
    and "''location'' \<in> set (columns (normalize_columns raw))"
    and "count_list (columns (normalize_columns raw)) ''date'' \<le> 1"
proof -
  have "''date'' \<in> set (columns (normalize_columns raw))" "''location'' \<in> set (columns (normalize_columns raw))"
    "count_list (columns (normalize_columns raw)) ''date'' \<le> 1"
    using assms
    by (auto simp: load_df_def to_datetime_series_def Let_def split: if_splits)
  then show ?thesis using that find_col_Some_iff by metis
qed

lemma load_df_explicit:
  assumes "load_df L raw = Inr DF"
  obtains i where "find_col (columns (normalize_columns raw)) ''date'' = Some i"
    and "''location'' \<in> set (columns (normalize_columns raw))"
    and "DF = (if ''location_level'' \<in> set (columns (normalize_columns raw))
         then \<lparr>columns = columns (normalize_columns raw),
               rows = filter (\<lambda>r. notna (cell_of i r))
                    (map (\<lambda>r. r[i := to_datetime_cell L (cell_of i r)]) (rows raw))\<rparr>
         else \<lparr>columns = columns (normalize_columns raw) @ [''location_level''],
               rows = map (\<lambda>r. r @ [Str ''Unknown''])
                 (filter (\<lambda>r. notna (cell_of i r))
                    (map (\<lambda>r. r[i := to_datetime_cell L (cell_of i r)]) (rows raw)))\<rparr>)"
proof -
  from assms obtain i where i: "find_col (columns (normalize_columns raw)) ''date'' = Some i"
    and l: "''location'' \<in> set (columns (normalize_columns raw))"
    and u: "count_list (columns (normalize_columns raw)) ''date'' \<le> 1"
    by (rule load_df_find_date)
  have c: "columns (normalize_columns raw) = map normalize_label (columns raw)"
    by (simp add: normalize_columns_def)
  show ?thesis
    using load_df_eq[of raw i L] i l u assms that[of i] unfolding c by (simp add: Let_def)
qed

lemma load_df_columns:
  assumes "load_df L raw = Inr DF"
  shows "''date'' \<in> set (columns DF) \<and> ''location'' \<in> set (columns DF) \<and> ''location_level'' \<in> set (columns DF)"
proof -
  from assms obtain i where i: "find_col (columns (normalize_columns raw)) ''date'' = Some i"
    and l: "''location'' \<in> set (columns (normalize_columns raw))"
    and DF: "DF = (if ''location_level'' \<in> set (columns (normalize_columns raw))
         then \<lparr>columns = columns (normalize_columns raw),
               rows = filter (\<lambda>r. notna (cell_of i r))
                    (map (\<lambda>r. r[i := to_datetime_cell L (cell_of i r)]) (rows raw))\<rparr>
         else \<lparr>columns = columns (normalize_columns raw) @ [''location_level''],
               rows = map (\<lambda>r. r @ [Str ''Unknown''])
                 (filter (\<lambda>r. notna (cell_of i r))
                    (map (\<lambda>r. r[i := to_datetime_cell L (cell_of i r)]) (rows raw)))\<rparr>)"
    by (rule load_df_explicit)
  have "''date'' \<in> set (columns (normalize_columns raw))"
    using i find_col_Some_iff by blast
  with l show ?thesis unfolding DF by simp
qed

lemma kept_iff:
  "notna (cell_of i (r[i := to_datetime_cell L (cell_of i r)])) \<longleftrightarrow> to_datetime_cell L (cell_of i r) \<noteq> NA"
  by (auto simp: notna_def cell_of_update) (simp add: cell_of_def)

text \<open>
  Claim C6.  The rows of the data set are the rows of the raw table whose date cell
  parses, in their order, with the date replaced by its timestamp (and the constant
  level appended when the table has no \<open>location_level\<close>): a row whose date does not
  parse is left out without an error, and the data set has at most as many rows as
  the raw table.
\<close>

theorem load_df_rows:
  assumes "load_df L raw = Inr DF"
  shows "length (rows DF) \<le> length (rows raw) \<and>
    (\<exists>i. find_col (columns (normalize_columns raw)) ''date'' = Some i \<and>
      rows DF =
        map (\<lambda>r. if ''location_level'' \<in> set (columns (normalize_columns raw))
                 then r[i := to_datetime_cell L (cell_of i r)]
                 else r[i := to_datetime_cell L (cell_of i r)] @ [Str ''Unknown''])
            (filter (\<lambda>r. to_datetime_cell L (cell_at (normalize_columns raw) r ''date'') \<noteq> NA) (rows raw)))"
proof -
  from assms obtain i where i: "find_col (columns (normalize_columns raw)) ''date'' = Some i"
    and DF: "DF = (if ''location_level'' \<in> set (columns (normalize_columns raw))
         then \<lparr>columns = columns (normalize_columns raw),
               rows = filter (\<lambda>r. notna (cell_of i r))
                    (map (\<lambda>r. r[i := to_datetime_cell L (cell_of i r)]) (rows raw))\<rparr>
         else \<lparr>columns = columns (normalize_columns raw) @ [''location_level''],
               rows = map (\<lambda>r. r @ [Str ''Unknown''])
                 (filter (\<lambda>r. notna (cell_of i r))
                    (map (\<lambda>r. r[i := to_datetime_cell L (cell_of i r)]) (rows raw)))\<rparr>)"
    by (rule load_df_explicit)
  have at: "cell_at (normalize_columns raw) r ''date'' = cell_of i r" for r
    using i by (simp add: cell_at_def)
  have rs: "filter (\<lambda>r. notna (cell_of i r)) (map (\<lambda>r. r[i := to_datetime_cell L (cell_of i r)]) (rows raw))
      = map (\<lambda>r. r[i := to_datetime_cell L (cell_of i r)])
          (filter (\<lambda>r. to_datetime_cell L (cell_of i r) \<noteq> NA) (rows raw))"
    by (simp add: filter_map o_def kept_iff)
  have rows: "rows DF =
        map (\<lambda>r. if ''location_level'' \<in> set (columns (normalize_columns raw))
                 then r[i := to_datetime_cell L (cell_of i r)]
                 else r[i := to_datetime_cell L (cell_of i r)] @ [Str ''Unknown''])
            (filter (\<lambda>r. to_datetime_cell L (cell_at (normalize_columns raw) r ''date'') \<noteq> NA) (rows raw))"
    unfolding DF rs at by (simp add: o_def)
  have "length (rows DF) \<le> length (rows raw)"
    unfolding rows by simp
  with i rows show ?thesis by blast
qed

lemma ex_load: "load_df example_lib example_raw = Inr example_DF"
  by code_simp

lemma ex_lengths: "length (rows example_DF) = 11" "length (rows example_raw) = 12"
  by (simp_all add: example_DF_def example_raw_def)

theorem load_df_rows_witness:
  "load_df example_lib example_raw = Inr example_DF \<and> length (rows example_DF) \<le> length (rows example_raw)"
  using load_df_rows [OF ex_load] ex_load by simp

text \<open>
  Claim C4, amended.  Every record of the data set that \<open>load_df\<close> returns has a valid
  date, and this data set is the one each request handler reads.  (Nothing is checked
  about the cells of the \<open>location\<close> column: see the counterexample below.)
\<close>

theorem load_df_valid_dates:
  assumes "load_df L raw = Inr DF"
  shows "list_all (valid_date DF) (rows DF) \<and>
    app L raw req = Inr (case req of Summary a \<Rightarrow> summary L DF a | Cases a \<Rightarrow> cases L DF a)"
proof -
  from assms obtain i where i: "find_col (columns (normalize_columns raw)) ''date'' = Some i"
    and DF: "DF = (if ''location_level'' \<in> set (columns (normalize_columns raw))
         then \<lparr>columns = columns (normalize_columns raw),
               rows = filter (\<lambda>r. notna (cell_of i r))
                    (map (\<lambda>r. r[i := to_datetime_cell L (cell_of i r)]) (rows raw))\<rparr>
         else \<lparr>columns = columns (normalize_columns raw) @ [''location_level''],
               rows = map (\<lambda>r. r @ [Str ''Unknown''])
                 (filter (\<lambda>r. notna (cell_of i r))
                    (map (\<lambda>r. r[i := to_datetime_cell L (cell_of i r)]) (rows raw)))\<rparr>)"
    by (rule load_df_explicit)
  have i': "find_col (columns DF) ''date'' = Some i"
    using i unfolding DF by (simp add: find_col_append)
  have ts: "is_timestamp (cell_of i r)"
    if "r \<in> set (filter (\<lambda>r. notna (cell_of i r))
                    (map (\<lambda>r. r[i := to_datetime_cell L (cell_of i r)]) (rows raw)))" for r
  proof -
    from that obtain r' where r: "r = r'[i := to_datetime_cell L (cell_of i r')]"
      and n: "cell_of i r \<noteq> NA" by (auto simp: notna_def)
    from n have "cell_of i r = to_datetime_cell L (cell_of i r')"
      unfolding r by (simp add: cell_of_update split: if_splits)
    with n show ?thesis
      using to_datetime_cell_cases[of L "cell_of i r'"] by auto
  qed
  have ts2: "is_timestamp (cell_of i (r @ [v]))"
    if "r \<in> set (filter (\<lambda>r. notna (cell_of i r))
                    (map (\<lambda>r. r[i := to_datetime_cell L (cell_of i r)]) (rows raw)))" for r v
  proof -
    from that have "cell_of i r \<noteq> NA" by (simp add: notna_def)
    then have "i < length r" by (rule cell_of_notna_less)
    then show ?thesis using ts[OF that] by (simp add: cell_of_append)
  qed
  have "is_timestamp (cell_of i r)" if "r \<in> set (rows DF)" for r
  proof (cases "''location_level'' \<in> set (columns (normalize_columns raw))")
    case True
    with that show ?thesis unfolding DF using ts by simp
  next
    case False
    with that show ?thesis unfolding DF using ts2 by auto
  qed
  then have "list_all (valid_date DF) (rows DF)"
    by (simp add: list_all_iff valid_date_def cell_at_def i')
  with assms show ?thesis by (simp add: app_Inr)
qed

theorem load_df_valid_dates_witness:
  "load_df example_lib example_raw = Inr example_DF \<and> list_all (valid_date example_DF) (rows example_DF)"
  using load_df_valid_dates [OF ex_load] ex_load by simp

lemma ex_no_location: "\<not> list_all (has_location example_DF) (rows example_DF)"
  by code_simp

text \<open>
  Claim C4 as stated also promises a non-empty location.  The example table has a row
  with a date and no location; \<open>load_df\<close> keeps it.
\<close>

theorem load_df_location_counterexample:
  "load_df example_lib example_raw = Inr example_DF \<and>
   \<not> list_all (has_location example_DF) (rows example_DF)"
  using ex_load ex_no_location by simp

subsection \<open>Filtering\<close>


lemma select_rows_view:
  assumes "select_rows c p df = Inr v"
  shows "columns v = columns df \<and> (\<exists>P. rows v = filter P (rows df))"
  using assms by (auto simp: select_rows_def split: option.splits)

lemma bind_err_Inr: "bind_err m f = Inr y \<longleftrightarrow> (\<exists>x. m = Inr x \<and> f x = Inr y)"
  by (cases m) (simp_all add: bind_err_def)

lemma bind_err_simps: "bind_err (Inr x) f = f x" "bind_err (Inl e) f = Inl e"
  by (simp_all add: bind_err_def)

lemma view_trans:
  assumes "columns v = columns df \<and> (\<exists>P. rows v = filter P (rows df))"
    and "columns w = columns v \<and> (\<exists>P. rows w = filter P (rows v))"
  shows "columns w = columns df \<and> (\<exists>P. rows w = filter P (rows df))"
proof -
  from assms obtain P Q where "rows v = filter P (rows df)" "rows w = filter Q (rows v)" by auto
  then have "rows w = filter (\<lambda>x. P x \<and> Q x) (rows df)" by simp
  with assms show ?thesis by auto
qed

lemma view_refl: "columns df = columns df \<and> (\<exists>P. rows df = filter P (rows df))"
  by (auto intro: exI[of _ "\<lambda>_. True"])

text \<open>One clause of the filter: either skipped or a selection.\<close>

lemma clause_view:
  assumes "(case a of None \<Rightarrow> Inr df | Some v \<Rightarrow> select_rows c (p v) df) = Inr w"
  shows "columns w = columns df \<and> (\<exists>P. rows w = filter P (rows df))"
  using assms select_rows_view view_refl by (cases a) auto

lemma date_clause_view:
  assumes "(case a of None \<Rightarrow> Inr df
            | Some v \<Rightarrow> (case to_datetime L v of None \<Rightarrow> Inr df | Some s \<Rightarrow> select_rows c (p s) df)) = Inr w"
  shows "columns w = columns df \<and> (\<exists>P. rows w = filter P (rows df))"
  using assms select_rows_view view_refl by (cases a; cases "to_datetime L (the a)") auto

lemma apply_filters_view:
  assumes "apply_filters L df args = Inr v"
  shows "columns v = columns df \<and> (\<exists>P. rows v = filter P (rows df))"
proof -
  from assms obtain o1 o2 o3 where
    1: "(case given (args ''level'') of None \<Rightarrow> Inr df
         | Some x \<Rightarrow> select_rows ''location_level'' (\<lambda>c. c = Str x) df) = Inr o1" and
    2: "(case given (args ''location'') of None \<Rightarrow> Inr o1
         | Some x \<Rightarrow> select_rows ''location'' (\<lambda>c. c = Str x) o1) = Inr o2" and
    3: "(case given (args ''start'') of None \<Rightarrow> Inr o2
         | Some x \<Rightarrow> (case to_datetime L x of None \<Rightarrow> Inr o2 | Some s \<Rightarrow> select_rows ''date'' (ge_ts s) o2)) = Inr o3" and
    4: "(case given (args ''end'') of None \<Rightarrow> Inr o3
         | Some x \<Rightarrow> (case to_datetime L x of None \<Rightarrow> Inr o3 | Some s \<Rightarrow> select_rows ''date'' (le_ts s) o3)) = Inr v"
    unfolding apply_filters_def Let_def bind_err_Inr by auto
  show ?thesis
    using view_trans[OF view_trans[OF view_trans[OF
            clause_view[where p = "\<lambda>x c. c = Str x", OF 1]
            clause_view[where p = "\<lambda>x c. c = Str x", OF 2]]
          date_clause_view[OF 3]] date_clause_view[OF 4]] .
qed




text \<open>
  Claim C10.  A parameter \<open>location\<close>, \<open>level\<close>, \<open>start\<close> or \<open>end\<close> given as the
  empty string is treated as absent: the filter returns what it returns for the query
  without that parameter.  In particular an empty \<open>location\<close> does not select the
  records whose location is the empty string (the witness keeps both rows).
\<close>

theorem apply_filters_empty_string:
  assumes "k \<in> {''location'', ''level'', ''start'', ''end''}" and "args k = Some []"
  shows "apply_filters L DF args = apply_filters L DF (args(k := None))"
  using assms by (auto simp: apply_filters_def Let_def)





lemma ex_empty_location:
  "apply_filters example_lib
     \<lparr>columns = [''date'', ''location'', ''location_level''],
      rows = [[Timestamp 1, Str [], Str ''a''], [Timestamp 2, Str ''X'', Str ''a'']]\<rparr>
     ((query [(''location'', [])])(''location'' := None)) =
   Inr \<lparr>columns = [''date'', ''location'', ''location_level''],
      rows = [[Timestamp 1, Str [], Str ''a''], [Timestamp 2, Str ''X'', Str ''a'']]\<rparr>"
  by code_simp

theorem apply_filters_empty_string_witness:
  "apply_filters example_lib
     \<lparr>columns = [''date'', ''location'', ''location_level''],
      rows = [[Timestamp 1, Str [], Str ''a''], [Timestamp 2, Str ''X'', Str ''a'']]\<rparr>
     (query [(''location'', [])]) =
   Inr \<lparr>columns = [''date'', ''location'', ''location_level''],
      rows = [[Timestamp 1, Str [], Str ''a''], [Timestamp 2, Str ''X'', Str ''a'']]\<rparr>"
proof -
  have "query [(''location'', [])] ''location'' = Some []"
    by (simp add: query_def)
  with apply_filters_empty_string [where k = "''location''" and args = "query [(''location'', [])]"
      and L = example_lib]
  show ?thesis by (simp add: ex_empty_location)
qed

subsection \<open>The summary\<close>

lemma sort_values_Inr:
  assumes "c \<in> set (columns df)"
  obtains i where "find_col (columns df) c = Some i"
    and "sort_values c df = Inr (df\<lparr>rows := sort_key (\<lambda>r. na_last (cell_of i r)) (rows df)\<rparr>)"
proof -
  from assms obtain i where "find_col (columns df) c = Some i"
    using find_col_Some_iff by metis
  then show ?thesis using that by (simp add: sort_values_def)
qed













text \<open>
  Claim C8.  When the view of a query on the loaded data set is empty, the summary is
  the response with count 0, an empty KPI dictionary and the message
  \<open>No data for filters\<close>; it is a response, not an error.
\<close>

theorem summary_empty_view:
  assumes "load_df L raw = Inr DF" and "apply_filters L DF args = Inr view" and "rows view = []"
  shows "summary L DF args = Inr (SummaryResponse 0 [] (Some ''No data for filters''))"
proof -
  from apply_filters_view[OF assms(2)] load_df_columns[OF assms(1)]
  have "''date'' \<in> set (columns view)" by simp
  then obtain i where "sort_values ''date'' view =
      Inr (view\<lparr>rows := sort_key (\<lambda>r. na_last (cell_of i r)) (rows view)\<rparr>)"
    by (rule sort_values_Inr)
  then show ?thesis
    by (simp add: summary_def assms(2,3) bind_err_simps)
qed













lemma ex_no_level:
  "apply_filters example_lib example_DF (query [(''level'', ''province'')]) = Inr (example_view\<lparr>rows := []\<rparr>)"
  by code_simp

theorem summary_empty_view_witness:
  "summary example_lib example_DF (query [(''level'', ''province'')]) =
     Inr (SummaryResponse 0 [] (Some ''No data for filters''))"
  using summary_empty_view [OF ex_load ex_no_level] by simp

subsection \<open>The record listing\<close>














end
